theory Spec2Isabelle
  imports Complex_Main
begin

section \<open>Numbers of the source language\<close>

text \<open>
  Every quantity of \<^verbatim>\<open>src/App.tsx\<close> is a TypeScript \<^verbatim>\<open>number\<close>, an IEEE double. The
  engine relies on the three non-finite values of that type: \<^verbatim>\<open>NaN\<close> marks an unset entry
  price or stop level, \<^verbatim>\<open>Infinity\<close> is the relative strength of a series without losses
  and the result of an overflow, and the statistics are allowed to come out non-finite. The
  type \<open>number\<close> below is the reals extended by \<open>Infinity\<close>, \<open>NegInfinity\<close> and \<open>NaN\<close>,
  with the arithmetic and the comparisons of the language on them. A sum, product, quotient
  or power of finite operands whose exact value leaves the range of the doubles overflows
  to the infinity of its sign. Two idealisations remain and hold for the whole development:
  a finite result inside the range is the exact real (rounding to the nearest double is
  not modelled, so the bound of an overflow is \<open>2 ^ 1024\<close> on the exact result), and the
  two zeros \<open>+0\<close> and \<open>-0\<close> are one value, which divides like \<open>+0\<close>.
\<close>

datatype number = Num real | Infinity | NegInfinity | NaN

fun isFinite :: "number \<Rightarrow> bool" where
  "isFinite (Num x) = True"
| "isFinite Infinity = False"
| "isFinite NegInfinity = False"
| "isFinite NaN = False"

text \<open>Truthiness of a number, as tested by \<^verbatim>\<open>x ? a : b\<close> and \<^verbatim>\<open>x || y\<close>.\<close>

fun truthy :: "number \<Rightarrow> bool" where
  "truthy (Num x) = (x \<noteq> 0)"
| "truthy Infinity = True"
| "truthy NegInfinity = True"
| "truthy NaN = False"

fun n_neg :: "number \<Rightarrow> number" where
  "n_neg (Num x) = Num (- x)"
| "n_neg Infinity = NegInfinity"
| "n_neg NegInfinity = Infinity"
| "n_neg NaN = NaN"

text \<open>The sign of a non-zero real decides the sign of an infinite result.\<close>

definition signed_inf :: "bool \<Rightarrow> number" where
  "signed_inf positive = (if positive then Infinity else NegInfinity)"

text \<open>
  The range of the finite doubles, and the result \<open>r\<close> of an operation on the finite
  operands \<open>x\<close> and \<open>y\<close>: it overflows when it leaves the range. A \<open>Num x\<close> with \<open>x\<close> outside
  the range is not a value of the language; the operations are left exact on such an
  operand, which keeps \<open>x * 1 = x\<close> true of every value of the type.
\<close>

definition in_range :: "real \<Rightarrow> bool" where
  "in_range x \<longleftrightarrow> \<bar>x\<bar> < 2 ^ 1024"

definition finite_result :: "real \<Rightarrow> real \<Rightarrow> real \<Rightarrow> number" where
  "finite_result x y r =
     (if in_range x \<and> in_range y \<and> \<not> in_range r then signed_inf (0 < r) else Num r)"

fun n_add :: "number \<Rightarrow> number \<Rightarrow> number" where
  "n_add (Num x) (Num y) = finite_result x y (x + y)"
| "n_add (Num x) Infinity = Infinity"
| "n_add (Num x) NegInfinity = NegInfinity"
| "n_add Infinity (Num y) = Infinity"
| "n_add Infinity Infinity = Infinity"
| "n_add Infinity NegInfinity = NaN"
| "n_add NegInfinity (Num y) = NegInfinity"
| "n_add NegInfinity Infinity = NaN"
| "n_add NegInfinity NegInfinity = NegInfinity"
| "n_add NaN b = NaN"
| "n_add a NaN = NaN"

definition n_sub :: "number \<Rightarrow> number \<Rightarrow> number" where
  "n_sub a b = n_add a (n_neg b)"


fun n_mul :: "number \<Rightarrow> number \<Rightarrow> number" where
  "n_mul (Num x) (Num y) = finite_result x y (x * y)"
| "n_mul (Num x) Infinity = (if x = 0 then NaN else signed_inf (0 < x))"
| "n_mul (Num x) NegInfinity = (if x = 0 then NaN else signed_inf (x < 0))"
| "n_mul Infinity (Num y) = (if y = 0 then NaN else signed_inf (0 < y))"
| "n_mul NegInfinity (Num y) = (if y = 0 then NaN else signed_inf (y < 0))"
| "n_mul Infinity Infinity = Infinity"
| "n_mul Infinity NegInfinity = NegInfinity"
| "n_mul NegInfinity Infinity = NegInfinity"
| "n_mul NegInfinity NegInfinity = Infinity"
| "n_mul NaN b = NaN"
| "n_mul a NaN = NaN"

fun n_div :: "number \<Rightarrow> number \<Rightarrow> number" where
  "n_div (Num x) (Num y) =
     (if y = 0 then (if x = 0 then NaN else signed_inf (0 < x))
      else finite_result x y (x / y))"
| "n_div (Num x) Infinity = Num 0"
| "n_div (Num x) NegInfinity = Num 0"
| "n_div Infinity (Num y) = signed_inf (0 \<le> y)"
| "n_div NegInfinity (Num y) = signed_inf (y < 0)"
| "n_div Infinity Infinity = NaN"
| "n_div Infinity NegInfinity = NaN"
| "n_div NegInfinity Infinity = NaN"
| "n_div NegInfinity NegInfinity = NaN"
| "n_div NaN b = NaN"
| "n_div a NaN = NaN"

text \<open>Comparisons: every comparison with \<open>NaN\<close> is false.\<close>

fun n_lt :: "number \<Rightarrow> number \<Rightarrow> bool" where
  "n_lt (Num x) (Num y) = (x < y)"
| "n_lt (Num x) Infinity = True"
| "n_lt NegInfinity (Num y) = True"
| "n_lt NegInfinity Infinity = True"
| "n_lt a b = False"

fun n_le :: "number \<Rightarrow> number \<Rightarrow> bool" where
  "n_le (Num x) (Num y) = (x \<le> y)"
| "n_le (Num x) Infinity = True"
| "n_le NegInfinity (Num y) = True"
| "n_le NegInfinity Infinity = True"
| "n_le Infinity Infinity = True"
| "n_le NegInfinity NegInfinity = True"
| "n_le a b = False"

definition n_gt :: "number \<Rightarrow> number \<Rightarrow> bool" where
  "n_gt a b = n_lt b a"

definition n_ge :: "number \<Rightarrow> number \<Rightarrow> bool" where
  "n_ge a b = n_le b a"

text \<open>Strict equality \<^verbatim>\<open>===\<close> of two numbers: \<open>NaN\<close> equals nothing.\<close>

definition n_eq :: "number \<Rightarrow> number \<Rightarrow> bool" where
  "n_eq a b = (a = b \<and> a \<noteq> NaN)"

definition Math_max :: "number \<Rightarrow> number \<Rightarrow> number" where
  "Math_max a b = (if a = NaN \<or> b = NaN then NaN else if n_lt a b then b else a)"

definition Math_min :: "number \<Rightarrow> number \<Rightarrow> number" where
  "Math_min a b = (if a = NaN \<or> b = NaN then NaN else if n_lt b a then b else a)"

fun Math_sqrt :: "number \<Rightarrow> number" where
  "Math_sqrt (Num x) = (if x < 0 then NaN else Num (sqrt x))"
| "Math_sqrt Infinity = Infinity"
| "Math_sqrt NegInfinity = NaN"
| "Math_sqrt NaN = NaN"

text \<open>
  \<^verbatim>\<open>Math.pow\<close>, case by case as the language defines it. \<open>is_int y\<close> and \<open>is_odd y\<close> say
  that the real \<open>y\<close> is an integer, respectively an odd one.
\<close>

definition is_int :: "real \<Rightarrow> bool" where
  "is_int y = (of_int \<lfloor>y\<rfloor> = y)"

definition is_odd :: "real \<Rightarrow> bool" where
  "is_odd y = (is_int y \<and> odd \<lfloor>y\<rfloor>)"

fun Math_pow :: "number \<Rightarrow> number \<Rightarrow> number" where
  "Math_pow b NaN = NaN"
| "Math_pow NaN (Num y) = (if y = 0 then Num 1 else NaN)"
| "Math_pow NaN Infinity = NaN"
| "Math_pow NaN NegInfinity = NaN"
| "Math_pow Infinity (Num y) = (if y = 0 then Num 1 else if 0 < y then Infinity else Num 0)"
| "Math_pow Infinity Infinity = Infinity"
| "Math_pow Infinity NegInfinity = Num 0"
| "Math_pow NegInfinity (Num y) =
     (if y = 0 then Num 1
      else if 0 < y then (if is_odd y then NegInfinity else Infinity)
      else Num 0)"
| "Math_pow NegInfinity Infinity = Infinity"
| "Math_pow NegInfinity NegInfinity = Num 0"
| "Math_pow (Num x) Infinity =
     (if x = 0 then Num 0
      else if 1 < \<bar>x\<bar> then Infinity else if \<bar>x\<bar> = 1 then NaN else Num 0)"
| "Math_pow (Num x) NegInfinity =
     (if x = 0 then Infinity
      else if 1 < \<bar>x\<bar> then Num 0 else if \<bar>x\<bar> = 1 then NaN else Infinity)"
| "Math_pow (Num x) (Num y) =
     (if y = 0 then Num 1
      else if x = 0 then (if 0 < y then Num 0 else Infinity)
      else if 0 < x then finite_result x y (x powr y)
      else if is_int y
        then finite_result x y ((if is_odd y then - 1 else 1) * (\<bar>x\<bar> powr y))
      else NaN)"

section \<open>Helpers\<close>

definition clamp :: "number \<Rightarrow> number \<Rightarrow> number \<Rightarrow> number" where
  "clamp x a b = Math_max a (Math_min b x)"

definition mean :: "number list \<Rightarrow> number" where
  "mean xs =
     (let ys = filter isFinite xs in
      if ys = [] then NaN
      else n_div (foldl n_add (Num 0) ys) (Num (real (length ys))))"

definition std :: "number list \<Rightarrow> number" where
  "std xs =
     (let ys = filter isFinite xs in
      if length ys < 2 then NaN
      else
        let m = mean ys;
            v = n_div (foldl (\<lambda>a b. n_add a (n_mul (n_sub b m) (n_sub b m))) (Num 0) ys)
                      (Num (real (length ys - 1)))
        in Math_sqrt v)"

text \<open>
  Reading an array of \<^verbatim>\<open>number | null\<close>: an index past the end gives \<^verbatim>\<open>undefined\<close>, which
  the tests \<^verbatim>\<open>== null\<close> and \<^verbatim>\<open>!= null\<close> of the source do not tell from \<^verbatim>\<open>null\<close>.
\<close>

definition lookup :: "number option list \<Rightarrow> nat \<Rightarrow> number option" where
  "lookup xs i = (if i < length xs then xs ! i else None)"

section \<open>Price bars, indicators and signal generators\<close>

text \<open>
  One bar of the price series (the type \<^verbatim>\<open>OHLCV\<close>); the fields carry the prefix \<open>bar_\<close>
  because \<open>t\<close> and \<open>open\<close> cannot be constant names here.
\<close>

record OHLCV =
  bar_t :: string
  bar_open :: number
  bar_high :: number
  bar_low :: number
  bar_close :: number
  bar_volume :: number

text \<open>
  \<^verbatim>\<open>rsi\<close>. The loop state is the triple of \<open>gains\<close>, \<open>losses\<close> and the output array;
  \<open>rsi_step\<close> is the loop body at index \<open>i\<close>. The period is a \<^verbatim>\<open>number\<close> in the source and
  stays one here, so the tests \<^verbatim>\<open>i <= period\<close> and \<^verbatim>\<open>i === period\<close> are the language's.
\<close>

definition rsi_value :: "number \<Rightarrow> number \<Rightarrow> number" where
  "rsi_value gains losses =
     (let rs = (if n_eq losses (Num 0) then Infinity else n_div gains losses)
      in n_sub (Num 100) (n_div (Num 100) (n_add (Num 1) rs)))"

definition rsi_step ::
  "number list \<Rightarrow> number \<Rightarrow> number \<times> number \<times> number option list \<Rightarrow> nat
   \<Rightarrow> number \<times> number \<times> number option list" where
  "rsi_step closes period st i =
     (case st of (gains0, losses0, out) \<Rightarrow>
        let chg = n_sub (closes ! i) (closes ! (i - 1));
            g = Math_max (Num 0) chg;
            l = Math_max (Num 0) (n_neg chg)
        in
          if n_le (Num (real i)) period then
            let gains = n_add gains0 g;
                losses = n_add losses0 l
            in if n_eq (Num (real i)) period
               then (gains, losses, out[i := Some (rsi_value gains losses)])
               else (gains, losses, out)
          else
            let gains = n_div (n_add (n_mul gains0 (n_sub period (Num 1))) g) period;
                losses = n_div (n_add (n_mul losses0 (n_sub period (Num 1))) l) period
            in (gains, losses, out[i := Some (rsi_value gains losses)]))"

definition rsi_loop :: "number list \<Rightarrow> number \<Rightarrow> nat \<Rightarrow> number \<times> number \<times> number option list" where
  "rsi_loop closes period k =
     foldl (rsi_step closes period) (Num 0, Num 0, replicate (length closes) None) [1..<k]"

definition rsi :: "number list \<Rightarrow> number \<Rightarrow> number option list" where
  "rsi closes period = snd (snd (rsi_loop closes period (length closes)))"

text \<open>
  \<^verbatim>\<open>buildBacktestSignalMeanRev\<close>. The loop state is the pair of \<open>pos\<close> (0 or 1) and the
  signal array, which starts filled with 0. The function returns the signal and the
  oscillator series.
\<close>

definition meanrev_step ::
  "number option list \<Rightarrow> number \<Rightarrow> number \<Rightarrow> nat \<times> number list \<Rightarrow> nat \<Rightarrow> nat \<times> number list" where
  "meanrev_step r entry exit st i =
     (case st of (pos0, sig) \<Rightarrow>
        (case r ! i of
           None \<Rightarrow> (pos0, sig[i := Num (real pos0)])
         | Some rv \<Rightarrow>
             let pos1 = (if pos0 = 0 \<and> n_lt rv entry then 1
                         else if pos0 = 1 \<and> n_gt rv exit then 0
                         else pos0)
             in (pos1, sig[i := Num (real pos1)])))"

definition buildBacktestSignalMeanRev ::
  "OHLCV list \<Rightarrow> number \<Rightarrow> number \<Rightarrow> number \<Rightarrow> number list \<times> number option list" where
  "buildBacktestSignalMeanRev rws rsiPeriod entry exit =
     (let closes = map bar_close rws;
          r = rsi closes rsiPeriod;
          st = foldl (meanrev_step r entry exit) (0, replicate (length rws) (Num 0)) [0..<length rws]
      in (snd st, r))"

text \<open>
  The mean-reversion rule in the words of the specification: a machine with the two states
  \<open>FLAT\<close> and \<open>LONG\<close> that reads the oscillator series bar by bar.
\<close>

datatype position = FLAT | LONG

fun machine_step :: "number \<Rightarrow> number \<Rightarrow> position \<Rightarrow> number option \<Rightarrow> position" where
  "machine_step entry exit p None = p"
| "machine_step entry exit FLAT (Some v) = (if n_lt v entry then LONG else FLAT)"
| "machine_step entry exit LONG (Some v) = (if n_gt v exit then FLAT else LONG)"

fun machine_run :: "number \<Rightarrow> number \<Rightarrow> position \<Rightarrow> number option list \<Rightarrow> position list" where
  "machine_run entry exit p [] = []"
| "machine_run entry exit p (x # xs) =
     machine_step entry exit p x # machine_run entry exit (machine_step entry exit p x) xs"

fun exposure_of :: "position \<Rightarrow> number" where
  "exposure_of FLAT = Num 0"
| "exposure_of LONG = Num 1"

section \<open>The simulation\<close>

text \<open>The argument object of \<^verbatim>\<open>backtestFromSignal\<close>.\<close>

record args =
  rows :: "OHLCV list"
  signal :: "number list"
  atr :: "number option list"
  volumeRatio :: "number option list"
  eventCountByDate :: "string \<rightharpoonup> number"
  feeBps :: number
  slipBps :: number
  atrStopK :: number
  volumeGateOn :: bool
  volumeGateThr :: number
  eventScaleOn :: bool
  eventCountThr :: number
  eventScale :: number

text \<open>The mutable locals of \<^verbatim>\<open>backtestFromSignal\<close>, threaded through the loop.\<close>

record bt_state =
  equity :: number
  pos :: nat
  entryPrice :: number
  stopLevel :: number
  trades :: nat
  wins :: nat
  losses :: nat
  curve :: "(string \<times> number) list"
  daily :: "number list"

record stats =
  totalReturn :: number
  cagr :: number
  sharpe :: number
  maxDrawdown :: number
  costBps :: number

text \<open>The type \<^verbatim>\<open>BacktestResult\<close>; its fields carry the prefix \<open>res_\<close>.\<close>

record BacktestResult =
  res_curve :: "(string \<times> number) list"
  res_daily :: "number list"
  res_trades :: nat
  res_wins :: nat
  res_losses :: nat
  res_stats :: stats

definition cost :: "args \<Rightarrow> number" where
  "cost a = clamp (n_div (n_add (feeBps a) (slipBps a)) (Num 10000)) (Num 0) (Num (1 / 10))"

text \<open>\<^verbatim>\<open>args.eventCountByDate[dayIso] || 0\<close>: a missing or falsy entry counts as 0.\<close>

definition eventCount :: "args \<Rightarrow> string \<Rightarrow> number" where
  "eventCount a dayIso =
     (case eventCountByDate a dayIso of
        None \<Rightarrow> Num 0
      | Some v \<Rightarrow> if truthy v then v else Num 0)"

definition exposureForDay :: "args \<Rightarrow> string \<Rightarrow> number" where
  "exposureForDay a dayIso =
     (if \<not> eventScaleOn a then Num 1
      else
        let c = eventCount a dayIso
        in if n_ge c (eventCountThr a) then clamp (eventScale a) (Num 0) (Num 1) else Num 1)"

text \<open>\<^verbatim>\<open>args.signal[i - 1] ? 1 : 0\<close>; an index past the end of the signal is falsy.\<close>

definition desired :: "args \<Rightarrow> nat \<Rightarrow> nat" where
  "desired a i = (if i - 1 < length (signal a) \<and> truthy (signal a ! (i - 1)) then 1 else 0)"

definition allowEntry :: "args \<Rightarrow> nat \<Rightarrow> bt_state \<Rightarrow> bool" where
  "allowEntry a i s =
     (if volumeGateOn a \<and> pos s = 0 \<and> desired a i = 1 then
        (case lookup (volumeRatio a) (i - 1) of
           None \<Rightarrow> False
         | Some vr \<Rightarrow> n_ge vr (volumeGateThr a))
      else True)"

text \<open>
  First half of the loop body for bar \<open>i\<close>: the position change at the previous close
  (source lines 1096 to 1136).
\<close>

definition position_change :: "args \<Rightarrow> nat \<Rightarrow> bt_state \<Rightarrow> bt_state" where
  "position_change a i s =
     (let prevClose = bar_close (rows a ! (i - 1)) in
      if desired a i \<noteq> pos s then
        if desired a i = 1 \<and> \<not> allowEntry a i s then s
        else
          let s1 = s\<lparr>equity := n_mul (equity s) (n_sub (Num 1) (cost a)),
                     trades := trades s + 1,
                     pos := desired a i\<rparr>
          in
            if pos s1 = 1 then
              s1\<lparr>entryPrice := prevClose,
                 stopLevel :=
                   (case lookup (atr a) (i - 1) of
                      None \<Rightarrow> NaN
                    | Some av \<Rightarrow>
                        if isFinite av \<and> n_gt av (Num 0)
                        then n_sub prevClose (n_mul (atrStopK a) av)
                        else NaN)\<rparr>
            else
              (if isFinite (entryPrice s1) \<and> n_gt prevClose (Num 0) then
                 (if n_ge (n_sub (n_div prevClose (entryPrice s1)) (Num 1)) (Num 0)
                  then s1\<lparr>wins := wins s1 + 1\<rparr>
                  else s1\<lparr>losses := losses s1 + 1\<rparr>)
               else s1)
              \<lparr>entryPrice := NaN, stopLevel := NaN\<rparr>
      else s)"

text \<open>
  Second half of the loop body: exposure, stop check, return of the bar, and the two
  \<^verbatim>\<open>push\<close> calls (source lines 1138 to 1174).
\<close>

definition daily_return :: "args \<Rightarrow> nat \<Rightarrow> bt_state \<Rightarrow> bt_state" where
  "daily_return a i s =
     (let prevClose = bar_close (rows a ! (i - 1));
          today = rows a ! i;
          expo = (if pos s = 1 then exposureForDay a (bar_t today) else Num 0)
      in
        if pos s = 1 \<and> n_gt expo (Num 0) then
          if isFinite (stopLevel s) \<and> n_le (bar_low today) (stopLevel s) \<and> n_gt prevClose (Num 0)
          then
            let rStop = n_sub (n_div (stopLevel s) prevClose) (Num 1);
                r = n_mul expo rStop;
                e1 = n_mul (equity s) (n_add (Num 1) r);
                e2 = n_mul e1 (n_sub (Num 1) (cost a));
                s1 = s\<lparr>equity := e2, trades := trades s + 1\<rparr>;
                s2 = (if isFinite (entryPrice s1) \<and> n_gt (entryPrice s1) (Num 0) then
                        (if n_ge (n_sub (n_div (stopLevel s1) (entryPrice s1)) (Num 1)) (Num 0)
                         then s1\<lparr>wins := wins s1 + 1\<rparr>
                         else s1\<lparr>losses := losses s1 + 1\<rparr>)
                      else s1)
            in s2\<lparr>pos := 0, entryPrice := NaN, stopLevel := NaN,
                   curve := curve s @ [(bar_t today, e2)],
                   daily := daily s @ [r]\<rparr>
          else
            let rr = (if n_gt prevClose (Num 0)
                      then n_sub (n_div (bar_close today) prevClose) (Num 1)
                      else Num 0);
                r = n_mul expo rr;
                e1 = n_mul (equity s) (n_add (Num 1) r)
            in s\<lparr>equity := e1,
                  curve := curve s @ [(bar_t today, e1)],
                  daily := daily s @ [r]\<rparr>
        else
          let e1 = n_mul (equity s) (Num 1)
          in s\<lparr>equity := e1,
                curve := curve s @ [(bar_t today, e1)],
                daily := daily s @ [Num 0]\<rparr>)"

definition bar_step :: "args \<Rightarrow> bt_state \<Rightarrow> nat \<Rightarrow> bt_state" where
  "bar_step a s i = daily_return a i (position_change a i s)"

definition init_state :: bt_state where
  "init_state =
     \<lparr>equity = Num 1, pos = 0, entryPrice = NaN, stopLevel = NaN,
      trades = 0, wins = 0, losses = 0, curve = [], daily = []\<rparr>"

text \<open>The loop \<^verbatim>\<open>for (let i = 1; i < n; i++)\<close>.\<close>

definition run_bars :: "args \<Rightarrow> bt_state" where
  "run_bars a = foldl (bar_step a) init_state [1..<length (rows a)]"

text \<open>\<^verbatim>\<open>computeMaxDrawdownFromCurve\<close>: the loop state is the pair of \<open>peak\<close> and \<open>mdd\<close>.\<close>

definition drawdown_step :: "number \<times> number \<Rightarrow> string \<times> number \<Rightarrow> number \<times> number" where
  "drawdown_step pm p =
     (let e = snd p;
          peak = (if n_gt e (fst pm) then e else fst pm);
          dd = (if n_gt peak (Num 0) then n_div (n_sub e peak) peak else Num 0);
          mdd = (if n_lt dd (snd pm) then dd else snd pm)
      in (peak, mdd))"

definition computeMaxDrawdownFromCurve :: "(string \<times> number) list \<Rightarrow> number" where
  "computeMaxDrawdownFromCurve c = snd (foldl drawdown_step (NegInfinity, Num 0) c)"

text \<open>
  The Sharpe ratio; \<^verbatim>\<open>std(daily) || NaN\<close> replaces a deviation of exactly zero by \<^verbatim>\<open>NaN\<close>.
  Whether the deviation of equal returns comes out as exactly zero depends on the rounding
  of their mean, which this model leaves out: no theorem below speaks about this field.
\<close>

definition sharpe_of :: "number list \<Rightarrow> number" where
  "sharpe_of d =
     n_mul (n_div (mean d) (if truthy (std d) then std d else NaN)) (Math_sqrt (Num 252))"

definition finalize :: "args \<Rightarrow> bt_state \<Rightarrow> BacktestResult" where
  "finalize a s =
     (let total = n_sub (equity s) (Num 1);
          nn = (if length (daily s) = 0 then 1 else length (daily s))
      in \<lparr>res_curve = curve s,
          res_daily = daily s,
          res_trades = trades s,
          res_wins = wins s,
          res_losses = losses s,
          res_stats =
            \<lparr>totalReturn = total,
             cagr = n_sub (Math_pow (n_add (Num 1) total) (n_div (Num 252) (Num (real nn)))) (Num 1),
             sharpe = sharpe_of (daily s),
             maxDrawdown = computeMaxDrawdownFromCurve (curve s),
             costBps = n_add (feeBps a) (slipBps a)\<rparr>\<rparr>)"

text \<open>\<^verbatim>\<open>backtestFromSignal\<close>; \<open>None\<close> is the \<^verbatim>\<open>null\<close> returned for fewer than two bars.\<close>

definition backtestFromSignal :: "args \<Rightarrow> BacktestResult option" where
  "backtestFromSignal a =
     (if length (rows a) < 2 then None else Some (finalize a (run_bars a)))"

section \<open>Concrete inputs\<close>

text \<open>A bar whose open, high and low equal its close, with volume 1000.\<close>

definition flat_bar :: "string \<Rightarrow> real \<Rightarrow> OHLCV" where
  "flat_bar d c =
     \<lparr>bar_t = d, bar_open = Num c, bar_high = Num c, bar_low = Num c, bar_close = Num c,
      bar_volume = Num 1000\<rparr>"

text \<open>Scenario A of the specification: closes 100, 105, 110, always long, no frictions.\<close>

definition scenario_A_args :: args where
  "scenario_A_args =
     \<lparr>rows = [flat_bar ''2026-01-05'' 100, flat_bar ''2026-01-06'' 105, flat_bar ''2026-01-07'' 110],
      signal = [Num 1, Num 1, Num 1],
      atr = [None, None, None],
      volumeRatio = [None, None, None],
      eventCountByDate = Map.empty,
      feeBps = Num 0, slipBps = Num 0, atrStopK = Num 2,
      volumeGateOn = False, volumeGateThr = Num 1,
      eventScaleOn = False, eventCountThr = Num 10, eventScale = Num (1 / 2)\<rparr>"

text \<open>A bar with the given date, low and close; open and high equal the close.\<close>

definition bar :: "string \<Rightarrow> real \<Rightarrow> real \<Rightarrow> OHLCV" where
  "bar d lo c =
     \<lparr>bar_t = d, bar_open = Num c, bar_high = Num c, bar_low = Num lo, bar_close = Num c,
      bar_volume = Num 1000\<rparr>"

text \<open>
  A long position entered at 100 with an ATR of 2 and a stop multiplier of 2 (stop at 96);
  the low of the third bar falls to 95. Fee and slippage are 5 basis points each.
\<close>

definition stop_args :: args where
  "stop_args =
     \<lparr>rows = [bar ''2026-01-05'' 99 100, bar ''2026-01-06'' 99 100, bar ''2026-01-07'' 95 96],
      signal = [Num 1, Num 1, Num 1],
      atr = [Some (Num 2), Some (Num 2), Some (Num 2)],
      volumeRatio = [None, None, None],
      eventCountByDate = Map.empty,
      feeBps = Num 5, slipBps = Num 5, atrStopK = Num 2,
      volumeGateOn = False, volumeGateThr = Num 1,
      eventScaleOn = False, eventCountThr = Num 10, eventScale = Num (1 / 2)\<rparr>"

text \<open>
  A series whose first close is negative: the position is entered at -10 with the stop at
  -11, and the low of the third bar is -12.
\<close>

definition negative_entry_args :: args where
  "negative_entry_args =
     \<lparr>rows = [bar ''2026-01-05'' (- 10) (- 10), bar ''2026-01-06'' 5 5, bar ''2026-01-07'' (- 12) 4],
      signal = [Num 1, Num 1, Num 1],
      atr = [Some (Num 1), Some (Num 1), Some (Num 1)],
      volumeRatio = [None, None, None],
      eventCountByDate = Map.empty,
      feeBps = Num 0, slipBps = Num 0, atrStopK = Num 1,
      volumeGateOn = False, volumeGateThr = Num 1,
      eventScaleOn = False, eventCountThr = Num 10, eventScale = Num (1 / 2)\<rparr>"

text \<open>Scenario A with the volume gate on, every volume ratio 1, and the given threshold.\<close>

definition gate_args :: "real \<Rightarrow> args" where
  "gate_args thr =
     scenario_A_args\<lparr>volumeRatio := [Some (Num 1), Some (Num 1), Some (Num 1)],
                      volumeGateOn := True, volumeGateThr := Num thr\<rparr>"

text \<open>Scenario A with the signal 1, 0, 0: entry at 100, exit by the signal at 105.\<close>

definition exit_args :: args where
  "exit_args = scenario_A_args\<lparr>signal := [Num 1, Num 0, Num 0]\<rparr>"

text \<open>
  The stop series with event scaling on: three events on the second date, threshold 2,
  scale factor 0, and a second bar whose low (90) is below the stop (96).
\<close>

definition scaled_args :: args where
  "scaled_args =
     stop_args\<lparr>rows := [bar ''2026-01-05'' 99 100, bar ''2026-01-06'' 90 100,
                        bar ''2026-01-07'' 95 96],
                eventCountByDate := [''2026-01-06'' \<mapsto> Num 3],
                eventScaleOn := True, eventCountThr := Num 2, eventScale := Num 0\<rparr>"

section \<open>Values that are not negative\<close>

text \<open>
  A number is not negative if it is \<open>NaN\<close> or at least 0 (\<open>Infinity\<close> included), and a
  return is a bounded loss if it is \<open>NaN\<close> or at least -1. The state of a run is solvent if
  its equity is not negative, no equity recorded in the curve is negative, and, as long as
  the equity is finite, every equity recorded so far is finite.
\<close>

definition not_negative :: "number \<Rightarrow> bool" where
  "not_negative x \<longleftrightarrow> x = NaN \<or> n_ge x (Num 0)"

definition bounded_loss :: "number \<Rightarrow> bool" where
  "bounded_loss r \<longleftrightarrow> r = NaN \<or> n_ge r (Num (- 1))"





text \<open>A close series of doubles whose gains and losses sum to \<open>2 ^ 1024\<close> each.\<close>

definition overflow_closes :: "number list" where
  "overflow_closes = [Num 0, Num (2 ^ 1023), Num 0, Num (2 ^ 1023), Num 0]"

section \<open>Evaluating the loop on short series\<close>

lemma finite_result_in_range [simp]: "in_range r \<Longrightarrow> finite_result x y r = Num r"
  by (simp add: finite_result_def)

lemma in_range_small [simp]: "\<bar>r\<bar> \<le> 2 ^ 64 \<Longrightarrow> in_range r"
  unfolding in_range_def
  by (rule le_less_trans [where y = "2 ^ 64"]) simp_all

lemma upt_1_2: "[1..<2] = [1]"
  by (simp add: upt_rec)

lemma upt_1_3: "[1..<3] = [1, 2]"
  by (simp add: upt_rec)

lemmas step_defs = bar_step_def position_change_def daily_return_def
  desired_def allowEntry_def cost_def clamp_def Math_max_def Math_min_def
  n_sub_def n_gt_def n_ge_def exposureForDay_def eventCount_def init_state_def Let_def

section \<open>Scenario A\<close>

text \<open>
  Claim C1. Take any three bars whose closes are 100, 105 and 110, the signal 1, 1, 1, zero
  fee and slippage, volume gating and event scaling switched off, and no defined ATR value
  (so that no stop is set). Then the engine enters at the close of bar 0: the position
  change of bar 1 turns the initial state into a long position with entry price 100 and
  trade count 1, at no cost. The run returns a result whose curve holds equity 1.05 for
  bar 1 and 1.1 for bar 2, whose total return is 0.1, and which counts one trade, no win and
  no loss. (Values are those of exact arithmetic.)
\<close>

theorem scenario_A:
  assumes closes: "map bar_close (rows a) = [Num 100, Num 105, Num 110]"
    and sig: "signal a = [Num 1, Num 1, Num 1]"
    and fee: "feeBps a = Num 0" "slipBps a = Num 0"
    and off: "\<not> volumeGateOn a" "\<not> eventScaleOn a"
    and noatr: "set (atr a) \<subseteq> {None}"
  shows "position_change a 1 init_state =
           init_state\<lparr>trades := 1, pos := 1, entryPrice := Num 100\<rparr>
       \<and> (\<exists>r. backtestFromSignal a = Some r
            \<and> res_curve r = [(bar_t (rows a ! 1), Num (105 / 100)),
                             (bar_t (rows a ! 2), Num (11 / 10))]
            \<and> totalReturn (res_stats r) = Num (1 / 10)
            \<and> res_trades r = 1 \<and> res_wins r = 0 \<and> res_losses r = 0)"
proof -
  from closes obtain r0 r1 r2 where rs: "rows a = [r0, r1, r2]"
    and c: "bar_close r0 = Num 100" "bar_close r1 = Num 105" "bar_close r2 = Num 110"
    by (auto simp: map_eq_Cons_conv)
  have a0: "lookup (atr a) 0 = None"
    using noatr by (cases "atr a") (auto simp: lookup_def)
  have enter: "position_change a 1 init_state =
           init_state\<lparr>trades := 1, pos := 1, entryPrice := Num 100\<rparr>"
    using off fee
    by (simp add: position_change_def desired_def allowEntry_def sig rs c a0 cost_def
        clamp_def Math_max_def Math_min_def n_sub_def init_state_def)
  have run: "run_bars a = \<lparr>equity = Num (11 / 10), pos = 1, entryPrice = Num 100,
        stopLevel = NaN, trades = 1, wins = 0, losses = 0,
        curve = [(bar_t r1, Num (105 / 100)), (bar_t r2, Num (11 / 10))],
        daily = [Num (1 / 20), Num (1 / 21)]\<rparr>"
    using off fee by (simp add: run_bars_def upt_1_3 rs c sig a0 step_defs)
  show ?thesis
    using enter by (simp add: backtestFromSignal_def finalize_def run rs n_sub_def)
qed

theorem scenario_A_witness:
  "map bar_close (rows scenario_A_args) = [Num 100, Num 105, Num 110]
   \<and> signal scenario_A_args = [Num 1, Num 1, Num 1]
   \<and> feeBps scenario_A_args = Num 0 \<and> slipBps scenario_A_args = Num 0
   \<and> \<not> volumeGateOn scenario_A_args \<and> \<not> eventScaleOn scenario_A_args
   \<and> set (atr scenario_A_args) \<subseteq> {None}
   \<and> (\<exists>r. backtestFromSignal scenario_A_args = Some r
         \<and> res_curve r = [(''2026-01-06'', Num (105 / 100)), (''2026-01-07'', Num (11 / 10))]
         \<and> totalReturn (res_stats r) = Num (1 / 10)
         \<and> res_trades r = 1 \<and> res_wins r = 0 \<and> res_losses r = 0)"
proof -
  have h: "map bar_close (rows scenario_A_args) = [Num 100, Num 105, Num 110]"
    "signal scenario_A_args = [Num 1, Num 1, Num 1]"
    "feeBps scenario_A_args = Num 0" "slipBps scenario_A_args = Num 0"
    "\<not> volumeGateOn scenario_A_args" "\<not> eventScaleOn scenario_A_args"
    "set (atr scenario_A_args) \<subseteq> {None}"
    by (simp_all add: scenario_A_args_def flat_bar_def)
  from scenario_A [OF h] show ?thesis
    using h by (simp add: scenario_A_args_def flat_bar_def)
qed

section \<open>Laws of the number operations\<close>

lemma n_mul_one [simp]: "n_mul x (Num 1) = x"
  by (cases x) (simp_all add: signed_inf_def finite_result_def)

lemma n_lt_not_ge: "n_lt v t \<Longrightarrow> \<not> n_ge v t"
  by (cases v; cases t) (simp_all add: n_ge_def)

section \<open>Invariants of the loop\<close>

lemma foldl_invariant:
  assumes "P s" and "\<And>s i. P s \<Longrightarrow> P (f s i)"
  shows "P (foldl f s xs)"
  using assms(1) by (induction xs arbitrary: s) (simp_all add: assms(2))

lemma desired_cases: "desired a i = 0 \<or> desired a i = 1"
  by (simp add: desired_def)

lemma lookup_in_set: "lookup xs j = Some v \<Longrightarrow> Some v \<in> set xs"
  by (metis lookup_def nth_mem option.distinct(1))

lemma run_bars_3:
  "length (rows a) = 3 \<Longrightarrow> run_bars a = bar_step a (bar_step a init_state 1) 2"
  unfolding run_bars_def by (simp only: upt_1_3 foldl_Cons foldl_Nil)

lemma backtest_3:
  "length (rows a) = 3 \<Longrightarrow>
   backtestFromSignal a = Some (finalize a (bar_step a (bar_step a init_state 1) 2))"
  by (simp add: backtestFromSignal_def run_bars_3)

lemmas example_defs = stop_args_def negative_entry_args_def gate_args_def exit_args_def
  scaled_args_def scenario_A_args_def bar_def flat_bar_def

section \<open>Stop-loss liquidation\<close>

text \<open>
  Claim C2, as the code has it. Let \<open>s'\<close> be the state after the position change of bar
  \<open>i\<close>. If \<open>s'\<close> is long, the exposure of the day is positive, the stop level is a finite
  number, the low of the bar is at or below it and the previous close is positive, then the
  bar liquidates at the stop level whatever the signal says: the return of the bar is
  \<open>r = exposure * (stopLevel / prevClose - 1)\<close>, equity is multiplied by \<open>1 + r\<close> and then
  by \<open>1 - cost\<close>, the trade count grows by one, the position becomes flat, entry price and
  stop level are reset to \<open>NaN\<close>, and the pair of date and equity and the return are
  appended. The exit is classified only when the entry price is finite and positive: then
  it is a win if \<open>stopLevel / entryPrice - 1 \<ge> 0\<close> and a loss otherwise. With any other
  entry price neither counter changes.
\<close>

theorem stop_liquidation:
  assumes long: "pos (position_change a i s) = 1"
    and expo: "n_gt (exposureForDay a (bar_t (rows a ! i))) (Num 0)"
    and stop: "isFinite (stopLevel (position_change a i s))"
      "n_le (bar_low (rows a ! i)) (stopLevel (position_change a i s))"
    and prev: "n_gt (bar_close (rows a ! (i - 1))) (Num 0)"
  shows "bar_step a s i =
     (let s' = position_change a i s;
          r = n_mul (exposureForDay a (bar_t (rows a ! i)))
                (n_sub (n_div (stopLevel s') (bar_close (rows a ! (i - 1)))) (Num 1));
          e = n_mul (n_mul (equity s') (n_add (Num 1) r)) (n_sub (Num 1) (cost a));
          classified = (isFinite (entryPrice s') \<and> n_gt (entryPrice s') (Num 0));
          win = n_ge (n_sub (n_div (stopLevel s') (entryPrice s')) (Num 1)) (Num 0)
      in s'\<lparr>equity := e, pos := 0, entryPrice := NaN, stopLevel := NaN,
            trades := trades s' + 1,
            wins := (if classified \<and> win then wins s' + 1 else wins s'),
            losses := (if classified \<and> \<not> win then losses s' + 1 else losses s'),
            curve := curve s' @ [(bar_t (rows a ! i), e)],
            daily := daily s' @ [r]\<rparr>)"
  using long expo stop prev by (simp add: bar_step_def daily_return_def Let_def)

text \<open>
  The run on \<open>stop_args\<close>: bar 1 enters at 100 with the stop at 96, bar 2 has its low at 95
  and is liquidated at 96; the exit is a loss.
\<close>

lemma stop_args_bar_1:
  "bar_step stop_args init_state 1 =
     \<lparr>equity = Num (999 / 1000), pos = 1, entryPrice = Num 100, stopLevel = Num 96,
      trades = 1, wins = 0, losses = 0,
      curve = [(''2026-01-06'', Num (999 / 1000))], daily = [Num 0]\<rparr>"
  by (simp add: example_defs step_defs lookup_def)

theorem stop_liquidation_witness:
  "pos (position_change stop_args 2 (bar_step stop_args init_state 1)) = 1
   \<and> n_gt (exposureForDay stop_args (bar_t (rows stop_args ! 2))) (Num 0)
   \<and> isFinite (stopLevel (position_change stop_args 2 (bar_step stop_args init_state 1)))
   \<and> n_le (bar_low (rows stop_args ! 2))
        (stopLevel (position_change stop_args 2 (bar_step stop_args init_state 1)))
   \<and> n_gt (bar_close (rows stop_args ! (2 - 1))) (Num 0)
   \<and> bar_step stop_args (bar_step stop_args init_state 1) 2 =
       \<lparr>equity = Num (999 / 1000 * (24 / 25) * (999 / 1000)), pos = 0,
        entryPrice = NaN, stopLevel = NaN, trades = 2, wins = 0, losses = 1,
        curve = [(''2026-01-06'', Num (999 / 1000)),
                 (''2026-01-07'', Num (999 / 1000 * (24 / 25) * (999 / 1000)))],
        daily = [Num 0, Num (- (1 / 25))]\<rparr>"
proof -
  have pc: "position_change stop_args 2 (bar_step stop_args init_state 1) =
      bar_step stop_args init_state 1"
    unfolding stop_args_bar_1 by (simp add: example_defs position_change_def desired_def)
  have h: "pos (position_change stop_args 2 (bar_step stop_args init_state 1)) = 1"
    "n_gt (exposureForDay stop_args (bar_t (rows stop_args ! 2))) (Num 0)"
    "isFinite (stopLevel (position_change stop_args 2 (bar_step stop_args init_state 1)))"
    "n_le (bar_low (rows stop_args ! 2))
        (stopLevel (position_change stop_args 2 (bar_step stop_args init_state 1)))"
    "n_gt (bar_close (rows stop_args ! (2 - 1))) (Num 0)"
    unfolding pc unfolding stop_args_bar_1
    by (simp_all add: example_defs exposureForDay_def n_gt_def)
  from stop_liquidation [OF h] show ?thesis
    using h unfolding pc unfolding stop_args_bar_1
    by (simp add: Let_def example_defs exposureForDay_def cost_def clamp_def Math_max_def
          Math_min_def n_sub_def n_gt_def n_ge_def)
qed

text \<open>
  The claim as it is written classifies every stop exit by the sign of
  \<open>stopLevel / entryPrice - 1\<close>. In the run on \<open>negative_entry_args\<close> the position is entered
  at the close -10 with the stop at -11. On bar 2 every condition of the claim holds and
  \<open>stopLevel / entryPrice - 1 = 1 / 10\<close>, yet the liquidation records no win (and no loss):
  the run ends with two trades, no win and no loss.
\<close>

theorem stop_win_iff_counterexample:
  "pos (position_change negative_entry_args 2 (bar_step negative_entry_args init_state 1)) = 1
   \<and> n_gt (exposureForDay negative_entry_args (bar_t (rows negative_entry_args ! 2))) (Num 0)
   \<and> isFinite (stopLevel
        (position_change negative_entry_args 2 (bar_step negative_entry_args init_state 1)))
   \<and> n_le (bar_low (rows negative_entry_args ! 2))
        (stopLevel
          (position_change negative_entry_args 2 (bar_step negative_entry_args init_state 1)))
   \<and> n_gt (bar_close (rows negative_entry_args ! (2 - 1))) (Num 0)
   \<and> n_ge (n_sub
        (n_div
          (stopLevel
            (position_change negative_entry_args 2 (bar_step negative_entry_args init_state 1)))
          (entryPrice
            (position_change negative_entry_args 2 (bar_step negative_entry_args init_state 1))))
        (Num 1)) (Num 0)
   \<and> wins (bar_step negative_entry_args (bar_step negative_entry_args init_state 1) 2) =
       wins (position_change negative_entry_args 2 (bar_step negative_entry_args init_state 1))
   \<and> map_option res_trades (backtestFromSignal negative_entry_args) = Some 2
   \<and> map_option res_wins (backtestFromSignal negative_entry_args) = Some 0
   \<and> map_option res_losses (backtestFromSignal negative_entry_args) = Some 0"
proof -
  have b1: "bar_step negative_entry_args init_state 1 =
     \<lparr>equity = Num 1, pos = 1, entryPrice = Num (- 10), stopLevel = Num (- 11),
      trades = 1, wins = 0, losses = 0, curve = [(''2026-01-06'', Num 1)], daily = [Num 0]\<rparr>"
    by (simp add: example_defs step_defs lookup_def)
  have pc: "position_change negative_entry_args 2 (bar_step negative_entry_args init_state 1) =
      bar_step negative_entry_args init_state 1"
    unfolding b1 by (simp add: example_defs position_change_def desired_def)
  have b2: "bar_step negative_entry_args (bar_step negative_entry_args init_state 1) 2 =
     \<lparr>equity = Num (- (11 / 5)), pos = 0, entryPrice = NaN, stopLevel = NaN,
      trades = 2, wins = 0, losses = 0,
      curve = [(''2026-01-06'', Num 1), (''2026-01-07'', Num (- (11 / 5)))],
      daily = [Num 0, Num (- (16 / 5))]\<rparr>"
    unfolding b1 by (simp add: example_defs step_defs lookup_def)
  have res: "backtestFromSignal negative_entry_args =
      Some (finalize negative_entry_args
        (bar_step negative_entry_args (bar_step negative_entry_args init_state 1) 2))"
    by (rule backtest_3) (simp add: negative_entry_args_def)
  show ?thesis
    unfolding res unfolding b2 pc unfolding b1
    by (simp add: finalize_def Let_def example_defs exposureForDay_def n_gt_def n_ge_def
          n_sub_def)
qed

section \<open>Volume gate\<close>

lemma gate_blocks_entry:
  assumes "volumeGateOn a" "pos s = 0" "desired a i = 1"
    and "\<not> (\<exists>vr. lookup (volumeRatio a) (i - 1) = Some vr \<and> n_ge vr (volumeGateThr a))"
  shows "position_change a i s = s"
  using assms by (auto simp: position_change_def allowEntry_def split: option.splits)

lemma gate_allows_entry:
  assumes "volumeGateOn a" "pos s = 0" "desired a i = 1"
    and "lookup (volumeRatio a) (i - 1) = Some vr" "n_ge vr (volumeGateThr a)"
  shows "position_change a i s = position_change (a\<lparr>volumeGateOn := False\<rparr>) i s"
    and "pos (position_change a i s) = 1"
  using assms
  by (simp_all add: position_change_def allowEntry_def desired_def cost_def Let_def
      split: option.splits)

lemma gate_ignores_long:
  assumes "pos s \<noteq> 0"
  shows "position_change a i s = position_change (a\<lparr>volumeGateOn := False\<rparr>) i s"
  using assms
  by (simp add: position_change_def allowEntry_def desired_def cost_def Let_def
      split: option.splits)

lemma gate_keeps_flat:
  assumes gate: "volumeGateOn a"
    and above: "\<forall>v. Some v \<in> set (volumeRatio a) \<longrightarrow> n_lt v (volumeGateThr a)"
    and flat: "pos s = 0 \<and> trades s = 0"
  shows "pos (bar_step a s i) = 0 \<and> trades (bar_step a s i) = 0"
proof -
  have "position_change a i s = s"
  proof (cases "desired a i = 1")
    case True
    have "\<not> (\<exists>vr. lookup (volumeRatio a) (i - 1) = Some vr \<and> n_ge vr (volumeGateThr a))"
      using above lookup_in_set n_lt_not_ge by blast
    with gate flat True show ?thesis by (simp add: gate_blocks_entry)
  next
    case False
    with desired_cases [of a i] flat show ?thesis by (simp add: position_change_def)
  qed
  then show ?thesis
    using flat by (simp add: bar_step_def daily_return_def Let_def)
qed

lemma gate_run_flat:
  assumes "volumeGateOn a"
    and "\<forall>v. Some v \<in> set (volumeRatio a) \<longrightarrow> n_lt v (volumeGateThr a)"
  shows "pos (run_bars a) = 0 \<and> trades (run_bars a) = 0"
  unfolding run_bars_def
  by (rule foldl_invariant) (simp_all add: init_state_def gate_keeps_flat [OF assms])

text \<open>
  Claim C3. With the volume gate on: (1) in a flat state with desired exposure 1, the
  position change of bar \<open>i\<close> enters when the volume ratio of bar \<open>i - 1\<close> is defined and
  at least the threshold, and then it is the entry made without the gate; when the ratio is
  undefined or below the threshold the state is left as it was, so nothing of the blocked
  entry is carried to the next step. (2) In a state that is not flat the gate changes nothing: the position change
  is the one made without the gate. (3) If the threshold is above every defined volume ratio
  of the series, the run ends flat with no trade, and a returned result has trade count 0.
\<close>

theorem volume_gate:
  assumes gate: "volumeGateOn a"
  shows "(pos s = 0 \<and> desired a i = 1
            \<and> (\<exists>vr. lookup (volumeRatio a) (i - 1) = Some vr \<and> n_ge vr (volumeGateThr a)) \<longrightarrow>
            position_change a i s = position_change (a\<lparr>volumeGateOn := False\<rparr>) i s
            \<and> pos (position_change a i s) = 1)
       \<and> (pos s = 0 \<and> desired a i = 1
            \<and> \<not> (\<exists>vr. lookup (volumeRatio a) (i - 1) = Some vr \<and> n_ge vr (volumeGateThr a)) \<longrightarrow>
            position_change a i s = s)
       \<and> (pos s \<noteq> 0 \<longrightarrow>
            position_change a i s = position_change (a\<lparr>volumeGateOn := False\<rparr>) i s)
       \<and> ((\<forall>v. Some v \<in> set (volumeRatio a) \<longrightarrow> n_lt v (volumeGateThr a)) \<longrightarrow>
            pos (run_bars a) = 0 \<and> trades (run_bars a) = 0
            \<and> (\<forall>r. backtestFromSignal a = Some r \<longrightarrow> res_trades r = 0))"
proof (intro conjI impI)
  assume "pos s = 0 \<and> desired a i = 1
      \<and> (\<exists>vr. lookup (volumeRatio a) (i - 1) = Some vr \<and> n_ge vr (volumeGateThr a))"
  then show "position_change a i s = position_change (a\<lparr>volumeGateOn := False\<rparr>) i s"
    and "pos (position_change a i s) = 1"
    using gate gate_allows_entry [of a s i] by blast+
next
  assume "pos s = 0 \<and> desired a i = 1
      \<and> \<not> (\<exists>vr. lookup (volumeRatio a) (i - 1) = Some vr \<and> n_ge vr (volumeGateThr a))"
  then show "position_change a i s = s"
    using gate gate_blocks_entry [of a s i] by blast
next
  assume "pos s \<noteq> 0"
  then show "position_change a i s = position_change (a\<lparr>volumeGateOn := False\<rparr>) i s"
    by (rule gate_ignores_long)
next
  assume above: "\<forall>v. Some v \<in> set (volumeRatio a) \<longrightarrow> n_lt v (volumeGateThr a)"
  show "pos (run_bars a) = 0" "trades (run_bars a) = 0"
    using gate_run_flat [OF gate above] by simp_all
  then show "\<forall>r. backtestFromSignal a = Some r \<longrightarrow> res_trades r = 0"
    by (auto simp: backtestFromSignal_def finalize_def Let_def split: if_splits)
qed

theorem volume_gate_witness:
  "volumeGateOn (gate_args 2) \<and> pos init_state = 0 \<and> desired (gate_args 2) 1 = 1
   \<and> lookup (volumeRatio (gate_args 2)) (1 - 1) = Some (Num 1)
   \<and> \<not> n_ge (Num 1) (volumeGateThr (gate_args 2))
   \<and> position_change (gate_args 2) 1 init_state = init_state
   \<and> set (volumeRatio (gate_args 2)) = {Some (Num 1)}
   \<and> n_lt (Num 1) (volumeGateThr (gate_args 2))
   \<and> trades (run_bars (gate_args 2)) = 0
   \<and> map_option res_trades (backtestFromSignal (gate_args 2)) = Some 0
   \<and> volumeGateOn (gate_args (1 / 2)) \<and> desired (gate_args (1 / 2)) 1 = 1
   \<and> lookup (volumeRatio (gate_args (1 / 2))) (1 - 1) = Some (Num 1)
   \<and> n_ge (Num 1) (volumeGateThr (gate_args (1 / 2)))
   \<and> pos (position_change (gate_args (1 / 2)) 1 init_state) = 1
   \<and> pos (bar_step (gate_args (1 / 2)) init_state 1) = 1
   \<and> position_change (gate_args (1 / 2)) 2 (bar_step (gate_args (1 / 2)) init_state 1) =
       position_change ((gate_args (1 / 2))\<lparr>volumeGateOn := False\<rparr>) 2
         (bar_step (gate_args (1 / 2)) init_state 1)"
proof -
  have closed: "volumeGateOn (gate_args 2)" "pos init_state = 0" "desired (gate_args 2) 1 = 1"
    "lookup (volumeRatio (gate_args 2)) (1 - 1) = Some (Num 1)"
    "\<not> n_ge (Num 1) (volumeGateThr (gate_args 2))"
    "set (volumeRatio (gate_args 2)) = {Some (Num 1)}"
    "n_lt (Num 1) (volumeGateThr (gate_args 2))"
    by (simp_all add: example_defs init_state_def desired_def lookup_def n_ge_def)
  have opened: "volumeGateOn (gate_args (1 / 2))" "desired (gate_args (1 / 2)) 1 = 1"
    "lookup (volumeRatio (gate_args (1 / 2))) (1 - 1) = Some (Num 1)"
    "n_ge (Num 1) (volumeGateThr (gate_args (1 / 2)))"
    by (simp_all add: example_defs desired_def lookup_def n_ge_def)
  have long: "pos (bar_step (gate_args (1 / 2)) init_state 1) = 1"
    by (simp add: example_defs step_defs lookup_def)
  have some: "\<exists>r. backtestFromSignal (gate_args 2) = Some r"
    by (simp add: backtestFromSignal_def example_defs)
  have no: "\<not> (\<exists>vr. lookup (volumeRatio (gate_args 2)) (1 - 1) = Some vr
                \<and> n_ge vr (volumeGateThr (gate_args 2)))"
    using closed by simp
  have yes: "\<exists>vr. lookup (volumeRatio (gate_args (1 / 2))) (1 - 1) = Some vr
                \<and> n_ge vr (volumeGateThr (gate_args (1 / 2)))"
    using opened by simp
  have above: "\<forall>v. Some v \<in> set (volumeRatio (gate_args 2)) \<longrightarrow>
                 n_lt v (volumeGateThr (gate_args 2))"
    using closed by simp
  from volume_gate [OF closed(1), of init_state 1] closed no above some
  have 1: "position_change (gate_args 2) 1 init_state = init_state"
    "trades (run_bars (gate_args 2)) = 0"
    "map_option res_trades (backtestFromSignal (gate_args 2)) = Some 0"
    by (auto simp del: One_nat_def)
  from volume_gate [OF opened(1), of init_state 1] opened closed(2) yes
  have 2: "pos (position_change (gate_args (1 / 2)) 1 init_state) = 1"
    by blast
  from volume_gate [OF opened(1), of "bar_step (gate_args (1 / 2)) init_state 1" 2] long
  have 3: "position_change (gate_args (1 / 2)) 2 (bar_step (gate_args (1 / 2)) init_state 1) =
       position_change ((gate_args (1 / 2))\<lparr>volumeGateOn := False\<rparr>) 2
         (bar_step (gate_args (1 / 2)) init_state 1)"
    by (simp del: One_nat_def)
  show ?thesis
    by (intro conjI) (rule closed opened long 1 2 3)+
qed

section \<open>Win and loss accounting\<close>

lemma position_change_counts:
  assumes "wins s + losses s \<le> trades s"
  shows "wins (position_change a i s) + losses (position_change a i s)
         \<le> trades (position_change a i s)"
  using assms by (simp add: position_change_def Let_def)

lemma daily_return_counts:
  assumes "wins s + losses s \<le> trades s"
  shows "wins (daily_return a i s) + losses (daily_return a i s) \<le> trades (daily_return a i s)"
  using assms by (simp add: daily_return_def Let_def)

lemma run_bars_counts: "wins (run_bars a) + losses (run_bars a) \<le> trades (run_bars a)"
  unfolding run_bars_def
  by (rule foldl_invariant)
     (simp_all add: init_state_def bar_step_def position_change_counts daily_return_counts)

lemma entry_no_record:
  assumes "pos s = 0" "pos (position_change a i s) = 1"
  shows "trades (position_change a i s) = trades s + 1
       \<and> wins (position_change a i s) = wins s \<and> losses (position_change a i s) = losses s"
  using assms by (auto simp add: position_change_def Let_def desired_def split: if_splits)

lemma change_record_is_exit:
  assumes "wins (position_change a i s) \<noteq> wins s \<or> losses (position_change a i s) \<noteq> losses s"
  shows "pos s \<noteq> 0 \<and> pos (position_change a i s) = 0"
  using assms by (auto simp add: position_change_def Let_def desired_def split: if_splits)

lemma return_record_is_exit:
  assumes "wins (daily_return a i s) \<noteq> wins s \<or> losses (daily_return a i s) \<noteq> losses s"
  shows "pos s = 1 \<and> pos (daily_return a i s) = 0"
  using assms by (auto simp add: daily_return_def Let_def split: if_splits)

text \<open>
  Claim C8. Every result the simulation returns satisfies
  \<open>winCount + lossCount \<le> tradeCount\<close>. The counters move as the claim says: a position
  change that takes a flat state to a long one adds one trade and leaves both the win and
  the loss count as they were; and whenever the win or the loss count changes, in the
  position change or in the return step of a bar, the step is an exit: it starts in a
  position and ends flat.
\<close>

theorem win_loss_accounting:
  assumes "backtestFromSignal a = Some r"
  shows "res_wins r + res_losses r \<le> res_trades r
       \<and> (\<forall>s i. pos s = 0 \<and> pos (position_change a i s) = 1 \<longrightarrow>
             trades (position_change a i s) = trades s + 1
             \<and> wins (position_change a i s) = wins s
             \<and> losses (position_change a i s) = losses s)
       \<and> (\<forall>s i. wins (position_change a i s) \<noteq> wins s
                 \<or> losses (position_change a i s) \<noteq> losses s \<longrightarrow>
             pos s \<noteq> 0 \<and> pos (position_change a i s) = 0)
       \<and> (\<forall>s i. wins (daily_return a i s) \<noteq> wins s
                 \<or> losses (daily_return a i s) \<noteq> losses s \<longrightarrow>
             pos s = 1 \<and> pos (daily_return a i s) = 0)"
proof -
  have "res_wins r + res_losses r \<le> res_trades r"
    using assms run_bars_counts [of a]
    by (auto simp: backtestFromSignal_def finalize_def Let_def split: if_splits)
  then show ?thesis
    using entry_no_record change_record_is_exit return_record_is_exit by blast
qed

text \<open>
  The run on \<open>exit_args\<close> enters on bar 1 and leaves by the signal on bar 2 with a win; the
  run on \<open>stop_args\<close> is stopped out on bar 2 with a loss.
\<close>

lemma exit_args_bar_1:
  "bar_step exit_args init_state 1 =
     \<lparr>equity = Num (21 / 20), pos = 1, entryPrice = Num 100, stopLevel = NaN,
      trades = 1, wins = 0, losses = 0,
      curve = [(''2026-01-06'', Num (21 / 20))], daily = [Num (1 / 20)]\<rparr>"
  by (simp add: example_defs step_defs lookup_def)

theorem win_loss_accounting_witness:
  "map_option res_wins (backtestFromSignal exit_args) = Some 1
   \<and> map_option res_losses (backtestFromSignal exit_args) = Some 0
   \<and> map_option res_trades (backtestFromSignal exit_args) = Some 2
   \<and> pos init_state = 0 \<and> pos (position_change exit_args 1 init_state) = 1
   \<and> trades (position_change exit_args 1 init_state) = trades init_state + 1
   \<and> wins (position_change exit_args 1 init_state) = wins init_state
   \<and> losses (position_change exit_args 1 init_state) = losses init_state
   \<and> wins (position_change exit_args 2 (bar_step exit_args init_state 1)) = 1
   \<and> wins (bar_step exit_args init_state 1) = 0
   \<and> pos (bar_step exit_args init_state 1) = 1
   \<and> pos (position_change exit_args 2 (bar_step exit_args init_state 1)) = 0
   \<and> losses (daily_return stop_args 2 (bar_step stop_args init_state 1)) = 1
   \<and> losses (bar_step stop_args init_state 1) = 0
   \<and> pos (bar_step stop_args init_state 1) = 1
   \<and> pos (daily_return stop_args 2 (bar_step stop_args init_state 1)) = 0
   \<and> map_option res_wins (backtestFromSignal stop_args) = Some 0
   \<and> map_option res_losses (backtestFromSignal stop_args) = Some 1
   \<and> map_option res_trades (backtestFromSignal stop_args) = Some 2"
proof -
  have e2: "position_change exit_args 2 (bar_step exit_args init_state 1) =
     \<lparr>equity = Num (21 / 20), pos = 0, entryPrice = NaN, stopLevel = NaN,
      trades = 2, wins = 1, losses = 0,
      curve = [(''2026-01-06'', Num (21 / 20))], daily = [Num (1 / 20)]\<rparr>"
    unfolding exit_args_bar_1 by (simp add: example_defs step_defs lookup_def)
  have e3: "daily_return exit_args 2
       (position_change exit_args 2 (bar_step exit_args init_state 1)) =
     \<lparr>equity = Num (21 / 20), pos = 0, entryPrice = NaN, stopLevel = NaN,
      trades = 2, wins = 1, losses = 0,
      curve = [(''2026-01-06'', Num (21 / 20)), (''2026-01-07'', Num (21 / 20))],
      daily = [Num (1 / 20), Num 0]\<rparr>"
    unfolding e2 by (simp add: example_defs step_defs lookup_def)
  have re: "backtestFromSignal exit_args =
      Some (finalize exit_args (bar_step exit_args (bar_step exit_args init_state 1) 2))"
    by (rule backtest_3) (simp add: example_defs)
  have s2: "daily_return stop_args 2 (bar_step stop_args init_state 1) =
     \<lparr>equity = Num (999 / 1000 * (24 / 25) * (999 / 1000)), pos = 0,
        entryPrice = NaN, stopLevel = NaN, trades = 2, wins = 0, losses = 1,
        curve = [(''2026-01-06'', Num (999 / 1000)),
                 (''2026-01-07'', Num (999 / 1000 * (24 / 25) * (999 / 1000)))],
        daily = [Num 0, Num (- (1 / 25))]\<rparr>"
    unfolding stop_args_bar_1 by (simp add: example_defs step_defs lookup_def)
  have sp: "position_change stop_args 2 (bar_step stop_args init_state 1) =
      bar_step stop_args init_state 1"
    unfolding stop_args_bar_1 by (simp add: example_defs position_change_def desired_def)
  have rs: "backtestFromSignal stop_args =
      Some (finalize stop_args (bar_step stop_args (bar_step stop_args init_state 1) 2))"
    by (rule backtest_3) (simp add: example_defs)
  have enter: "pos init_state = 0" "pos (position_change exit_args 1 init_state) = 1"
    by (simp_all add: example_defs step_defs lookup_def)
  have facts: "wins (position_change exit_args 2 (bar_step exit_args init_state 1)) = 1"
    "wins (bar_step exit_args init_state 1) = 0"
    "losses (daily_return stop_args 2 (bar_step stop_args init_state 1)) = 1"
    "losses (bar_step stop_args init_state 1) = 0"
    unfolding e2 s2 unfolding exit_args_bar_1 stop_args_bar_1 by simp_all
  have counts: "map_option res_wins (backtestFromSignal exit_args) = Some 1"
    "map_option res_losses (backtestFromSignal exit_args) = Some 0"
    "map_option res_trades (backtestFromSignal exit_args) = Some 2"
    "map_option res_wins (backtestFromSignal stop_args) = Some 0"
    "map_option res_losses (backtestFromSignal stop_args) = Some 1"
    "map_option res_trades (backtestFromSignal stop_args) = Some 2"
    unfolding re rs bar_step_def [of exit_args _ 2] bar_step_def [of stop_args _ 2]
    unfolding e3 sp unfolding s2
    by (simp_all add: finalize_def Let_def)
  have A1: "pos init_state = 0 \<and> pos (position_change exit_args 1 init_state) = 1 \<longrightarrow>
      trades (position_change exit_args 1 init_state) = trades init_state + 1
      \<and> wins (position_change exit_args 1 init_state) = wins init_state
      \<and> losses (position_change exit_args 1 init_state) = losses init_state"
    using win_loss_accounting [OF re] by blast
  have A2: "wins (position_change exit_args 2 (bar_step exit_args init_state 1))
        \<noteq> wins (bar_step exit_args init_state 1)
      \<or> losses (position_change exit_args 2 (bar_step exit_args init_state 1))
        \<noteq> losses (bar_step exit_args init_state 1) \<longrightarrow>
      pos (bar_step exit_args init_state 1) \<noteq> 0
      \<and> pos (position_change exit_args 2 (bar_step exit_args init_state 1)) = 0"
    using win_loss_accounting [OF re] by blast
  have A3: "wins (daily_return stop_args 2 (bar_step stop_args init_state 1))
        \<noteq> wins (bar_step stop_args init_state 1)
      \<or> losses (daily_return stop_args 2 (bar_step stop_args init_state 1))
        \<noteq> losses (bar_step stop_args init_state 1) \<longrightarrow>
      pos (bar_step stop_args init_state 1) = 1
      \<and> pos (daily_return stop_args 2 (bar_step stop_args init_state 1)) = 0"
    using win_loss_accounting [OF rs] by blast
  have B1: "trades (position_change exit_args 1 init_state) = trades init_state + 1"
    "wins (position_change exit_args 1 init_state) = wins init_state"
    "losses (position_change exit_args 1 init_state) = losses init_state"
    using A1 enter by blast+
  have B2: "pos (position_change exit_args 2 (bar_step exit_args init_state 1)) = 0"
    using A2 facts(1,2) by (simp del: One_nat_def)
  have B3: "pos (bar_step stop_args init_state 1) = 1"
    "pos (daily_return stop_args 2 (bar_step stop_args init_state 1)) = 0"
    using A3 facts(3,4) by (simp_all del: One_nat_def)
  have B4: "pos (bar_step exit_args init_state 1) = 1"
    unfolding exit_args_bar_1 by simp
  show ?thesis
    by (intro conjI) (rule enter facts counts B1 B2 B3 B4)+
qed

section \<open>Event scaling to zero exposure\<close>

text \<open>
  Claim C9. Let the state after the position change of bar \<open>i\<close> be long, let event scaling
  be on, the event count of the bar's date be at least the count threshold, and the scale
  factor clamp to 0. Then the bar only appends the unchanged equity to the curve and the
  return 0 to the return series: equity, trade, win and loss counts, position, entry price
  and stop level are those after the position change. No condition is put on the low of the
  bar, so this holds also when the low is at or below the stop level.
\<close>

theorem zero_exposure_skips_stop:
  assumes long: "pos (position_change a i s) = 1"
    and scaling: "eventScaleOn a"
    and count: "n_ge (eventCount a (bar_t (rows a ! i))) (eventCountThr a)"
    and zero: "clamp (eventScale a) (Num 0) (Num 1) = Num 0"
  shows "bar_step a s i =
           (position_change a i s)
             \<lparr>curve := curve (position_change a i s)
                         @ [(bar_t (rows a ! i), equity (position_change a i s))],
              daily := daily (position_change a i s) @ [Num 0]\<rparr>"
proof -
  have "exposureForDay a (bar_t (rows a ! i)) = Num 0"
    using scaling count zero by (simp add: exposureForDay_def)
  then show ?thesis
    using long by (simp add: bar_step_def daily_return_def n_gt_def)
qed

theorem zero_exposure_skips_stop_witness:
  "pos (position_change scaled_args 1 init_state) = 1
   \<and> eventScaleOn scaled_args
   \<and> n_ge (eventCount scaled_args (bar_t (rows scaled_args ! 1))) (eventCountThr scaled_args)
   \<and> clamp (eventScale scaled_args) (Num 0) (Num 1) = Num 0
   \<and> stopLevel (position_change scaled_args 1 init_state) = Num 96
   \<and> n_le (bar_low (rows scaled_args ! 1)) (Num 96)
   \<and> bar_step scaled_args init_state 1 =
       \<lparr>equity = Num (999 / 1000), pos = 1, entryPrice = Num 100, stopLevel = Num 96,
        trades = 1, wins = 0, losses = 0,
        curve = [(''2026-01-06'', Num (999 / 1000))], daily = [Num 0]\<rparr>"
proof -
  have pc: "position_change scaled_args 1 init_state =
       \<lparr>equity = Num (999 / 1000), pos = 1, entryPrice = Num 100, stopLevel = Num 96,
        trades = 1, wins = 0, losses = 0, curve = [], daily = []\<rparr>"
    by (simp add: example_defs step_defs lookup_def)
  have h: "pos (position_change scaled_args 1 init_state) = 1"
    "eventScaleOn scaled_args"
    "n_ge (eventCount scaled_args (bar_t (rows scaled_args ! 1))) (eventCountThr scaled_args)"
    "clamp (eventScale scaled_args) (Num 0) (Num 1) = Num 0"
    unfolding pc
    by (simp_all add: example_defs eventCount_def n_ge_def clamp_def Math_max_def Math_min_def)
  have low: "n_le (bar_low (rows scaled_args ! 1)) (Num 96)"
    by (simp add: example_defs)
  from zero_exposure_skips_stop [OF h] show ?thesis
    using h low unfolding pc by (simp add: example_defs)
qed

section \<open>The mean-reversion signal\<close>

lemma rsi_step_length:
  "length (snd (snd (rsi_step closes period st i))) = length (snd (snd st))"
  by (cases st) (simp add: rsi_step_def Let_def)

lemma length_rsi [simp]: "length (rsi closes period) = length closes"
  unfolding rsi_def rsi_loop_def
  by (rule foldl_invariant) (simp_all add: rsi_step_length)

lemma machine_run_snoc:
  "machine_run entry exit p (xs @ [y]) =
     machine_run entry exit p xs @ [machine_step entry exit (foldl (machine_step entry exit) p xs) y]"
  by (induction xs arbitrary: p) simp_all

lemma length_machine_run [simp]: "length (machine_run entry exit p xs) = length xs"
  by (induction xs arbitrary: p) simp_all

text \<open>The number the generator keeps in \<open>pos\<close> for a state of the machine.\<close>

lemma meanrev_step_machine:
  assumes "exposure_of p = Num (real pos0)"
  shows "\<exists>pos1. meanrev_step r entry exit (pos0, sig) i =
           (pos1, sig[i := exposure_of (machine_step entry exit p (r ! i))])
         \<and> exposure_of (machine_step entry exit p (r ! i)) = Num (real pos1)"
  using assms by (cases p; cases "r ! i") (auto simp: meanrev_step_def Let_def)

lemma update_first_of_rest:
  assumes "length xs = k" "k < n"
  shows "(xs @ replicate (n - k) z)[k := v] = (xs @ [v]) @ replicate (n - Suc k) z"
proof -
  have "replicate (n - k) z = z # replicate (n - Suc k) z"
    using assms(2) by (metis Suc_diff_Suc replicate_Suc)
  then show ?thesis
    using assms(1) by (simp add: list_update_append)
qed

lemma meanrev_loop:
  assumes "k \<le> length r"
  shows "\<exists>pos0. foldl (meanrev_step r entry exit) (0, replicate (length r) (Num 0)) [0..<k] =
           (pos0, map exposure_of (machine_run entry exit FLAT (take k r))
                  @ replicate (length r - k) (Num 0))
         \<and> exposure_of (foldl (machine_step entry exit) FLAT (take k r)) = Num (real pos0)"
  using assms
proof (induction k)
  case 0
  then show ?case by simp
next
  case (Suc k)
  then have k: "k < length r" by simp
  from Suc obtain pos0 where
    loop: "foldl (meanrev_step r entry exit) (0, replicate (length r) (Num 0)) [0..<k] =
           (pos0, map exposure_of (machine_run entry exit FLAT (take k r))
                  @ replicate (length r - k) (Num 0))"
    and st: "exposure_of (foldl (machine_step entry exit) FLAT (take k r)) = Num (real pos0)"
    by auto
  let ?p = "foldl (machine_step entry exit) FLAT (take k r)"
  let ?sig = "map exposure_of (machine_run entry exit FLAT (take k r))
                  @ replicate (length r - k) (Num 0)"
  from meanrev_step_machine [OF st, of r entry exit ?sig k] obtain pos1 where
    step: "meanrev_step r entry exit (pos0, ?sig) k =
           (pos1, ?sig[k := exposure_of (machine_step entry exit ?p (r ! k))])"
    and st1: "exposure_of (machine_step entry exit ?p (r ! k)) = Num (real pos1)"
    by blast
  have tk: "take (Suc k) r = take k r @ [r ! k]"
    using k by (simp add: take_Suc_conv_app_nth)
  have len: "length (map exposure_of (machine_run entry exit FLAT (take k r))) = k"
    using k by simp
  have "foldl (meanrev_step r entry exit) (0, replicate (length r) (Num 0)) [0..<Suc k] =
        (pos1, ?sig[k := exposure_of (machine_step entry exit ?p (r ! k))])"
    by (simp add: loop step)
  also have "?sig[k := exposure_of (machine_step entry exit ?p (r ! k))] =
        map exposure_of (machine_run entry exit FLAT (take (Suc k) r))
          @ replicate (length r - Suc k) (Num 0)"
    unfolding update_first_of_rest [OF len k] by (simp add: tk machine_run_snoc)
  finally show ?case
    using st1 by (auto simp: tk)
qed

text \<open>
  Claim C7. The signal returned by \<^verbatim>\<open>buildBacktestSignalMeanRev\<close> is the run of the
  two-state machine over the oscillator series of the closes, bar by bar: the machine
  starts \<open>FLAT\<close>; on an undefined oscillator value it keeps its state; in \<open>FLAT\<close> it moves
  to \<open>LONG\<close> exactly when the value of the bar is below the entry threshold; in \<open>LONG\<close> it
  moves to \<open>FLAT\<close> exactly when the value is above the exit threshold; and the signal of
  the bar is the exposure of the state after the move (0 for \<open>FLAT\<close>, 1 for \<open>LONG\<close>). The
  second component returned is the oscillator series itself.
\<close>

theorem mean_reversion_machine:
  "buildBacktestSignalMeanRev rws rsiPeriod entry exit =
     (map exposure_of (machine_run entry exit FLAT (rsi (map bar_close rws) rsiPeriod)),
      rsi (map bar_close rws) rsiPeriod)"
proof -
  let ?r = "rsi (map bar_close rws) rsiPeriod"
  have n: "length ?r = length rws" by simp
  from meanrev_loop [of "length ?r" ?r entry exit] obtain pos0 where
    "foldl (meanrev_step ?r entry exit) (0, replicate (length ?r) (Num 0)) [0..<length ?r] =
       (pos0, map exposure_of (machine_run entry exit FLAT ?r))"
    by auto
  then show ?thesis
    by (simp add: buildBacktestSignalMeanRev_def Let_def)
qed

section \<open>Sums, products and quotients of numbers that are not negative\<close>

lemma finite_result_nonneg:
  assumes "0 \<le> r"
  shows "finite_result x y r = Infinity \<or> finite_result x y r = Num r"
proof (cases "in_range x \<and> in_range y \<and> \<not> in_range r")
  case True
  then have "r \<noteq> 0" by (auto simp: in_range_def)
  with assms True show ?thesis by (simp add: finite_result_def signed_inf_def)
next
  case False
  then show ?thesis by (auto simp: finite_result_def)
qed

lemma not_negative_simps [simp]:
  "not_negative (Num x) \<longleftrightarrow> 0 \<le> x" "not_negative Infinity" "not_negative NaN"
  "\<not> not_negative NegInfinity"
  by (simp_all add: not_negative_def n_ge_def)

lemma not_negative_cases:
  "not_negative a \<longleftrightarrow> a = NaN \<or> a = Infinity \<or> (\<exists>x. a = Num x \<and> 0 \<le> x)"
  by (cases a) simp_all

lemma not_negative_finite_result [simp]: "0 \<le> r \<Longrightarrow> not_negative (finite_result x y r)"
  using finite_result_nonneg [of r x y] by auto

lemma n_add_NaN [simp]: "n_add a NaN = NaN"
  by (cases a) simp_all

lemma n_mul_NaN [simp]: "n_mul a NaN = NaN"
  by (cases a) simp_all

lemma n_div_NaN [simp]: "n_div a NaN = NaN"
  by (cases a) simp_all

lemma not_negative_add:
  assumes "not_negative a" "not_negative b"
  shows "not_negative (n_add a b)"
  using assms by (cases a; cases b) simp_all

lemma not_negative_mul:
  assumes "not_negative a" "not_negative b"
  shows "not_negative (n_mul a b)"
  using assms by (cases a; cases b) (simp_all add: signed_inf_def)

lemma not_negative_div:
  assumes "not_negative a" "not_negative b"
  shows "not_negative (n_div a b)"
  using assms by (cases a; cases b) (simp_all add: signed_inf_def)

lemma not_negative_max_zero: "not_negative (Math_max (Num 0) c)"
  by (cases c) (simp_all add: Math_max_def)

lemma in_range_bounded: "\<bar>r\<bar> \<le> 100 \<Longrightarrow> in_range r"
  by (rule in_range_small) simp

section \<open>The relative-strength oscillator\<close>

lemma rsi_loop_Suc:
  "1 \<le> k \<Longrightarrow>
   rsi_loop closes period (Suc k) = rsi_step closes period (rsi_loop closes period k) k"
  by (simp add: rsi_loop_def)

lemma rsi_loop_start: "k \<le> 1 \<Longrightarrow>
   rsi_loop closes period k = (Num 0, Num 0, replicate (length closes) None)"
  by (simp add: rsi_loop_def)

lemma rsi_value_no_loss: "rsi_value g (Num 0) = Num 100"
  by (simp add: rsi_value_def n_eq_def n_sub_def)

text \<open>The value written for a finite non-negative relative strength \<open>q\<close>.\<close>

lemma rsi_of_strength:
  assumes "0 \<le> q"
  shows "\<exists>v. n_sub (Num 100) (n_div (Num 100) (n_add (Num 1) (Num q))) = Num v
           \<and> 0 \<le> v \<and> v \<le> 100"
proof -
  from finite_result_nonneg [of "1 + q" 1 q] assms
  consider "n_add (Num 1) (Num q) = Infinity" | "n_add (Num 1) (Num q) = Num (1 + q)"
    by auto
  then show ?thesis
  proof cases
    case 1
    then show ?thesis by (simp add: n_sub_def)
  next
    case 2
    have pos: "0 < 1 + q" "1 \<le> 1 + q" using assms by simp_all
    then have w: "0 \<le> 100 / (1 + q)" "100 / (1 + q) \<le> 100"
      by (simp_all add: divide_le_eq)
    then have "in_range (100 / (1 + q))" "in_range (100 - 100 / (1 + q))"
      by (auto intro!: in_range_bounded)
    with 2 pos w show ?thesis
      by (simp add: n_sub_def)
  qed
qed

lemma rsi_value_finite:
  assumes "0 \<le> x" "0 \<le> y"
  shows "\<exists>v. rsi_value (Num x) (Num y) = Num v \<and> 0 \<le> v \<and> v \<le> 100"
proof (cases "y = 0")
  case True
  then show ?thesis by (simp add: rsi_value_no_loss)
next
  case False
  with assms have q: "0 \<le> x / y" by simp
  from finite_result_nonneg [OF q, of x y]
  consider "n_div (Num x) (Num y) = Infinity" | "n_div (Num x) (Num y) = Num (x / y)"
    using False by auto
  then show ?thesis
  proof cases
    case 1
    with False show ?thesis by (simp add: rsi_value_def n_eq_def n_sub_def)
  next
    case 2
    with False rsi_of_strength [OF q] show ?thesis
      by (simp add: rsi_value_def n_eq_def)
  qed
qed

lemma rsi_value_not_negative:
  assumes "not_negative g" "not_negative l"
  shows "rsi_value g l = NaN \<or> (\<exists>v. rsi_value g l = Num v \<and> 0 \<le> v \<and> v \<le> 100)"
proof -
  from assms(2) consider "l = NaN" | "l = Infinity" | y where "l = Num y" "0 \<le> y"
    by (auto simp: not_negative_cases)
  then show ?thesis
  proof cases
    case 1
    then show ?thesis by (simp add: rsi_value_def n_eq_def n_sub_def)
  next
    case 2
    from assms(1) consider "g = NaN" | "g = Infinity" | x where "g = Num x" "0 \<le> x"
      by (auto simp: not_negative_cases)
    then show ?thesis
      using 2 by cases (simp_all add: rsi_value_def n_eq_def n_sub_def)
  next
    case 3
    from assms(1) consider "g = NaN" | "g = Infinity" | x where "g = Num x" "0 \<le> x"
      by (auto simp: not_negative_cases)
    then show ?thesis
    proof cases
      case 1
      then show ?thesis
        using 3 by (cases "y = 0") (simp_all add: rsi_value_def n_eq_def n_sub_def)
    next
      case 2
      then show ?thesis
        using 3
        by (cases "y = 0") (simp_all add: rsi_value_def n_eq_def n_sub_def signed_inf_def)
    next
      case (3 x)
      with \<open>l = Num y\<close> \<open>0 \<le> y\<close> rsi_value_finite [of x y] show ?thesis by auto
    qed
  qed
qed

text \<open>Which indices a step writes, and what it writes there.\<close>

lemma rsi_step_out:
  assumes "n_ge period (Num 1)"
  shows "snd (snd (rsi_step closes period st k)) =
     (if n_le period (Num (real k))
      then (snd (snd st))[k := Some (rsi_value (fst (rsi_step closes period st k))
                                              (fst (snd (rsi_step closes period st k))))]
      else snd (snd st))"
  using assms
  by (cases st; cases period) (auto simp: rsi_step_def Let_def n_eq_def n_ge_def)

text \<open>Gains and losses are never negative.\<close>

lemma period_less_one_not_negative:
  assumes "n_ge period (Num 1)"
  shows "not_negative period" and "not_negative (n_sub period (Num 1))"
proof -
  show "not_negative period"
    using assms by (cases period) (simp_all add: n_ge_def)
  show "not_negative (n_sub period (Num 1))"
  proof (cases period)
    case (Num p)
    with assms have p: "1 \<le> p" by (simp add: n_ge_def)
    then have "\<bar>p - 1\<bar> \<le> \<bar>p\<bar>" by simp
    then have "in_range p \<Longrightarrow> in_range (p - 1)" by (simp add: in_range_def)
    then have "finite_result p (- 1) (p - 1) = Num (p - 1)"
      by (auto simp: finite_result_def)
    with p show ?thesis by (simp add: Num n_sub_def)
  qed (use assms in \<open>simp_all add: n_sub_def n_ge_def\<close>)
qed

lemma rsi_step_state:
  assumes per: "n_ge period (Num 1)"
    and st: "not_negative (fst st)" "not_negative (fst (snd st))"
  shows "not_negative (fst (rsi_step closes period st k))
       \<and> not_negative (fst (snd (rsi_step closes period st k)))"
  using st period_less_one_not_negative [OF per]
  by (cases st)
     (auto simp: rsi_step_def Let_def
       intro!: not_negative_add not_negative_mul not_negative_div not_negative_max_zero)

lemma rsi_loop_state:
  assumes per: "n_ge period (Num 1)"
  shows "not_negative (fst (rsi_loop closes period k))
       \<and> not_negative (fst (snd (rsi_loop closes period k)))"
proof (induction k)
  case 0
  then show ?case by (simp add: rsi_loop_start)
next
  case (Suc k)
  show ?case
  proof (cases "k = 0")
    case True
    then show ?thesis by (simp add: rsi_loop_start)
  next
    case False
    then have k1: "1 \<le> k" by simp
    from rsi_step_state [OF per, of "rsi_loop closes period k" closes k] Suc
    show ?thesis by (simp add: rsi_loop_Suc [OF k1])
  qed
qed

lemma period_above_zero: "n_ge period (Num 1) \<Longrightarrow> \<not> n_le period (Num 0)"
  by (cases period) (simp_all add: n_ge_def)

lemma rsi_loop_out:
  assumes per: "n_ge period (Num 1)"
    and k: "k \<le> length closes"
  shows "length (snd (snd (rsi_loop closes period k))) = length closes
       \<and> (\<forall>j < length closes. snd (snd (rsi_loop closes period k)) ! j =
            (if j < k \<and> n_le period (Num (real j))
             then Some (rsi_value (fst (rsi_loop closes period (Suc j)))
                                  (fst (snd (rsi_loop closes period (Suc j)))))
             else None))"
  using k
proof (induction k)
  case 0
  then show ?case by (simp add: rsi_loop_start)
next
  case (Suc k)
  show ?case
  proof (cases "k = 0")
    case True
    then show ?thesis
      using period_above_zero [OF per] by (simp add: rsi_loop_start)
  next
    case False
    then have k1: "1 \<le> k" by simp
    from Suc have IH: "length (snd (snd (rsi_loop closes period k))) = length closes"
      "\<And>j. j < length closes \<Longrightarrow> snd (snd (rsi_loop closes period k)) ! j =
            (if j < k \<and> n_le period (Num (real j))
             then Some (rsi_value (fst (rsi_loop closes period (Suc j)))
                                  (fst (snd (rsi_loop closes period (Suc j)))))
             else None)"
      by simp_all
    have out: "snd (snd (rsi_loop closes period (Suc k))) =
       (if n_le period (Num (real k))
        then (snd (snd (rsi_loop closes period k)))
               [k := Some (rsi_value (fst (rsi_loop closes period (Suc k)))
                                     (fst (snd (rsi_loop closes period (Suc k)))))]
        else snd (snd (rsi_loop closes period k)))"
      using rsi_step_out [OF per, of closes "rsi_loop closes period k" k]
      by (simp only: rsi_loop_Suc [OF k1])
    show ?thesis
    proof (intro conjI allI impI)
      show "length (snd (snd (rsi_loop closes period (Suc k)))) = length closes"
        by (simp add: out IH(1))
    next
      fix j assume j: "j < length closes"
      show "snd (snd (rsi_loop closes period (Suc k))) ! j =
            (if j < Suc k \<and> n_le period (Num (real j))
             then Some (rsi_value (fst (rsi_loop closes period (Suc j)))
                                  (fst (snd (rsi_loop closes period (Suc j)))))
             else None)"
      proof (cases "j = k")
        case True
        then show ?thesis
          using j IH(2) [OF j] by (simp add: out IH(1))
      next
        case False
        then show ?thesis
          using j IH(2) [OF j] by (simp add: out less_Suc_eq)
      qed
    qed
  qed
qed

lemma n_lt_not_le: "n_lt a b \<Longrightarrow> \<not> n_le b a"
  by (cases a; cases b) simp_all

text \<open>
  Claim C6, as the code has it. Let the period be at least 1. Then at every index \<open>i\<close> of
  a close series: if \<open>i\<close> is below the period, the oscillator is undefined there. If it is
  defined, its value is never outside the interval from 0 to 100: it lies between 0 and
  100 or it is \<open>NaN\<close>; it lies between 0 and 100 whenever the smoothed gain and the
  smoothed loss after step \<open>i\<close> are both finite, that is, while neither has overflowed;
  and it is exactly 100 when that smoothed loss is exactly zero. (A finite result inside
  the range of the doubles is exact here; see the first section.)
\<close>

theorem rsi_range:
  assumes per: "n_ge period (Num 1)"
    and i: "i < length closes"
  shows "(n_lt (Num (real i)) period \<longrightarrow> rsi closes period ! i = None)
       \<and> (\<forall>v. rsi closes period ! i = Some v \<longrightarrow>
             (v = NaN \<or> n_le (Num 0) v \<and> n_le v (Num 100))
             \<and> (isFinite (fst (rsi_loop closes period (Suc i)))
                \<and> isFinite (fst (snd (rsi_loop closes period (Suc i)))) \<longrightarrow>
                  n_le (Num 0) v \<and> n_le v (Num 100))
             \<and> (fst (snd (rsi_loop closes period (Suc i))) = Num 0 \<longrightarrow> v = Num 100))"
proof -
  let ?g = "fst (rsi_loop closes period (Suc i))"
  let ?l = "fst (snd (rsi_loop closes period (Suc i)))"
  have out: "rsi closes period ! i =
      (if n_le period (Num (real i)) then Some (rsi_value ?g ?l) else None)"
    using rsi_loop_out [OF per, of "length closes" closes] i by (simp add: rsi_def)
  from rsi_loop_state [OF per, of closes "Suc i"]
  have nn: "not_negative ?g" "not_negative ?l" by simp_all
  from rsi_value_not_negative [OF nn]
  have any: "rsi_value ?g ?l = NaN \<or> n_le (Num 0) (rsi_value ?g ?l) \<and> n_le (rsi_value ?g ?l) (Num 100)"
    by auto
  have fin: "n_le (Num 0) (rsi_value ?g ?l) \<and> n_le (rsi_value ?g ?l) (Num 100)"
    if "isFinite ?g" "isFinite ?l"
  proof -
    from that nn obtain x y where "?g = Num x" "0 \<le> x" "?l = Num y" "0 \<le> y"
      by (auto simp: not_negative_cases)
    with rsi_value_finite [of x y] show ?thesis by auto
  qed
  show ?thesis
    using any fin rsi_value_no_loss [of ?g] n_lt_not_le [of "Num (real i)" period]
    by (auto simp: out)
qed

lemma upt_Suc_0_3: "[Suc 0..<3] = [Suc 0, 2]"
  by (simp add: upt_rec)

lemma rsi_example:
  "rsi [Num 100, Num 101, Num 100, Num 102] (Num 2) = [None, None, Some (Num 50), Some (Num 75)]"
  by (simp add: rsi_def rsi_loop_def rsi_step_def rsi_value_def Let_def n_sub_def
      n_eq_def Math_max_def)

lemma rsi_example_state:
  "rsi_loop [Num 100, Num 101, Num 100, Num 102] (Num 2) 3 =
     (Num 1, Num 1, [None, None, Some (Num 50), None])"
  by (simp add: rsi_loop_def upt_Suc_0_3 rsi_step_def rsi_value_def Let_def n_sub_def
      n_eq_def Math_max_def)

lemma rsi_example_rising:
  "rsi_loop [Num 1, Num 2, Num 3] (Num 2) 3 = (Num 2, Num 0, [None, None, Some (Num 100)])"
  by (simp add: rsi_loop_def upt_Suc_0_3 rsi_step_def rsi_value_def Let_def n_sub_def
      n_eq_def Math_max_def)

theorem rsi_range_witness:
  "n_ge (Num 2) (Num 1)
   \<and> n_lt (Num (real 1)) (Num 2)
   \<and> rsi [Num 100, Num 101, Num 100, Num 102] (Num 2) ! 1 = None
   \<and> rsi [Num 100, Num 101, Num 100, Num 102] (Num 2) ! 2 = Some (Num 50)
   \<and> isFinite (fst (rsi_loop [Num 100, Num 101, Num 100, Num 102] (Num 2) (Suc 2)))
   \<and> isFinite (fst (snd (rsi_loop [Num 100, Num 101, Num 100, Num 102] (Num 2) (Suc 2))))
   \<and> n_le (Num 0) (Num 50) \<and> n_le (Num 50) (Num 100)
   \<and> fst (snd (rsi_loop [Num 1, Num 2, Num 3] (Num 2) (Suc 2))) = Num 0
   \<and> rsi [Num 1, Num 2, Num 3] (Num 2) ! 2 = Some (Num 100)"
proof -
  have per: "n_ge (Num 2) (Num 1)" by (simp add: n_ge_def)
  have below: "n_lt (Num (real 1)) (Num 2)" by simp
  have r2: "rsi [Num 100, Num 101, Num 100, Num 102] (Num 2) ! 2 = Some (Num 50)"
    by (simp add: rsi_example)
  have fin: "isFinite (fst (rsi_loop [Num 100, Num 101, Num 100, Num 102] (Num 2) (Suc 2)))"
    "isFinite (fst (snd (rsi_loop [Num 100, Num 101, Num 100, Num 102] (Num 2) (Suc 2))))"
    by (simp_all add: rsi_example_state)
  have loss: "fst (snd (rsi_loop [Num 1, Num 2, Num 3] (Num 2) (Suc 2))) = Num 0"
    by (simp add: rsi_example_rising)
  have defined: "rsi [Num 1, Num 2, Num 3] (Num 2) ! 2 =
      Some (the (rsi [Num 1, Num 2, Num 3] (Num 2) ! 2))"
    by (simp add: rsi_def rsi_loop_def rsi_step_def rsi_value_def Let_def n_sub_def
        n_eq_def Math_max_def)
  from rsi_range [OF per, of 1 "[Num 100, Num 101, Num 100, Num 102]"] below
  have 1: "rsi [Num 100, Num 101, Num 100, Num 102] (Num 2) ! 1 = None"
    by (simp del: One_nat_def)
  from rsi_range [OF per, of 2 "[Num 100, Num 101, Num 100, Num 102]"] r2 fin
  have 2: "n_le (Num 0) (Num 50)" "n_le (Num 50) (Num 100)"
    by simp_all
  from rsi_range [OF per, of 2 "[Num 1, Num 2, Num 3]"] defined loss
  have "the (rsi [Num 1, Num 2, Num 3] (Num 2) ! 2) = Num 100"
    by fastforce
  with defined have r3: "rsi [Num 1, Num 2, Num 3] (Num 2) ! 2 = Some (Num 100)"
    by simp
  show ?thesis
    by (intro conjI) (rule per below 1 2 r2 fin loss r3)+
qed

lemma upt_Suc_0_5: "[Suc 0..<5] = [Suc 0, 2, 3, 4]"
  by (simp add: upt_rec)

text \<open>
  The claim as it is written puts every defined value between 0 and 100 on finite closes.
  The closes 0, \<open>2 ^ 1023\<close>, 0, \<open>2 ^ 1023\<close>, 0 are finite doubles. With the period 4 the
  gains and the losses each sum to \<open>2 ^ 1024\<close>, which overflows: both are \<open>Infinity\<close> at
  index 4, their quotient is \<open>NaN\<close>, and so is the value written there.
\<close>

theorem rsi_range_counterexample:
  "list_all isFinite overflow_closes
   \<and> in_range (2 ^ 1023)
   \<and> n_ge (Num 4) (Num 1)
   \<and> rsi_loop overflow_closes (Num 4) 5 =
       (Infinity, Infinity, [None, None, None, None, Some NaN])
   \<and> rsi overflow_closes (Num 4) ! 4 = Some NaN
   \<and> \<not> n_le (Num 0) NaN \<and> \<not> n_le NaN (Num 100)"
proof -
  have loop: "rsi_loop overflow_closes (Num 4) 5 =
       (Infinity, Infinity, [None, None, None, None, Some NaN])"
    by (simp add: rsi_loop_def overflow_closes_def upt_Suc_0_5 rsi_step_def rsi_value_def Let_def
        n_sub_def n_eq_def Math_max_def finite_result_def in_range_def signed_inf_def)
  have len: "length overflow_closes = 5"
    by (simp add: overflow_closes_def)
  show ?thesis
    by (simp add: rsi_def len loop) (simp add: overflow_closes_def n_ge_def in_range_def)
qed

section \<open>Equity is never negative\<close>













lemma bounded_loss_simps [simp]:
  "bounded_loss (Num x) \<longleftrightarrow> - 1 \<le> x" "bounded_loss Infinity" "bounded_loss NaN"
  "\<not> bounded_loss NegInfinity"
  by (simp_all add: bounded_loss_def n_ge_def)


























end
